theory Spec2Isabelle
  imports Complex_Main "HOL-Library.Sublist" "HOL-Library.Word"
    "HOL-Library.Code_Target_Numeral"
begin

section \<open>Savings group ledger (src/src/App.tsx)\<close>

text \<open>
  The program is one React component, \<open>App\<close>, whose state is four \<open>useState\<close> cells
  (\<open>members\<close>, \<open>currentWeek\<close>, \<open>formState\<close>, \<open>error\<close>) and whose event handlers
  (\<open>handleSubmit\<close>, \<open>handleTierChange\<close>, \<open>handleWithdraw\<close>, \<open>advanceWeek\<close>) replace
  them. The handlers are modelled as functions from the state before the event to the
  state after it; the derived values (\<open>totals\<close>, \<open>computeProjectedTotal\<close>) as pure
  functions. Events are handled one at a time, each by the handlers of the render that
  follows the previous event, so a handler reads the state the previous one left.
\<close>

subsection \<open>JavaScript values used by the component\<close>

text \<open>
  A JavaScript \<open>number\<close> is NaN, one of the two infinities, or a finite binary64
  value, here the rational it denotes. \<open>Number\<close> rounds what it reads to binary64. The
  arithmetic of the component is modelled on the rationals: on the values the
  component computes with (the catalog amounts, their products with the catalog rates,
  which binary64 rounds to 500, 2000 and 6000, and week counters below \<open>2^53\<close>)
  binary64 arithmetic is exact and agrees with it.
\<close>

datatype number = NaN | PosInfinity | NegInfinity | Finite rat

text \<open>
  A string is a list of UTF-16 code units. \<open>str\<close> gives the string of a literal
  written with characters below U+0100, whose code units are the character codes.
\<close>

type_synonym jsstring = "16 word list"

definition codeUnit :: "char \<Rightarrow> 16 word" where
  "codeUnit c = of_char c"

definition str :: "string \<Rightarrow> jsstring" where
  "str s = map codeUnit s"

text \<open>
  \<open>isWhiteSpace\<close> holds of the white space and line terminator code points, which
  \<open>String.prototype.trim\<close> and \<open>Number\<close> strip: tab, line feed, vertical tab, form feed,
  carriage return, space, no-break space, the other space separators, the line and
  paragraph separators and the byte order mark.
\<close>

definition isWhiteSpace :: "16 word \<Rightarrow> bool" where
  "isWhiteSpace c \<longleftrightarrow>
     c \<in> {0x0009, 0x000A, 0x000B, 0x000C, 0x000D, 0x0020, 0x00A0, 0x1680,
          0x2000, 0x2001, 0x2002, 0x2003, 0x2004, 0x2005, 0x2006, 0x2007, 0x2008, 0x2009,
          0x200A, 0x2028, 0x2029, 0x202F, 0x205F, 0x3000, 0xFEFF}"

definition trim :: "jsstring \<Rightarrow> jsstring" where
  "trim s = rev (dropWhile isWhiteSpace (rev (dropWhile isWhiteSpace s)))"

definition digitValue :: "16 word \<Rightarrow> nat option" where
  "digitValue c =
     (let n = unat c
      in if 48 \<le> n \<and> n \<le> 57 then Some (n - 48)
         else if 97 \<le> n \<and> n \<le> 102 then Some (n - 87)
         else if 65 \<le> n \<and> n \<le> 70 then Some (n - 55)
         else None)"

fun digitsValue :: "nat \<Rightarrow> nat \<Rightarrow> jsstring \<Rightarrow> nat option" where
  "digitsValue radix acc [] = Some acc"
| "digitsValue radix acc (c # cs) =
     (case digitValue c of
        None \<Rightarrow> None
      | Some d \<Rightarrow> if d < radix then digitsValue radix (acc * radix + d) cs else None)"

definition isDecimalDigit :: "16 word \<Rightarrow> bool" where
  "isDecimalDigit c \<longleftrightarrow> (case digitValue c of None \<Rightarrow> False | Some d \<Rightarrow> d < 10)"

definition isExponentIndicator :: "16 word \<Rightarrow> bool" where
  "isExponentIndicator c \<longleftrightarrow> c = codeUnit CHR ''e'' \<or> c = codeUnit CHR ''E''"

text \<open>
  The Number value of a non-negative real: the nearest binary64 value, ties to the
  even significand, and infinity from \<open>2^1024\<close> on. \<open>binade q\<close> is the exponent \<open>e\<close>
  with \<open>2^e \<le> q < 2^(e+1)\<close>. The unit in the last place is \<open>2^(e - 52)\<close>, and
  \<open>2^(-1074)\<close> below the smallest normal value.
\<close>

fun bitLength :: "nat \<Rightarrow> nat" where
  "bitLength n = (if n = 0 then 0 else Suc (bitLength (n div 2)))"

declare bitLength.simps [simp del]

definition binade :: "rat \<Rightarrow> int" where
  "binade q =
     (if 1 \<le> q then int (bitLength (nat \<lfloor>q\<rfloor>)) - 1
      else - int (bitLength (nat (\<lceil>1 / q\<rceil> - 1))))"

definition roundHalfEven :: "rat \<Rightarrow> int" where
  "roundHalfEven x =
     (let f = \<lfloor>x\<rfloor>; d = x - of_int f
      in if d < 1 / 2 then f
         else if 1 / 2 < d then f + 1
         else if even f then f else f + 1)"

definition roundToBinary64 :: "rat \<Rightarrow> number" where
  "roundToBinary64 q =
     (if q = 0 then Finite 0
      else (let p = max (binade q) (- 1022) - 52;
                r = of_int (roundHalfEven (q / 2 powi p)) * 2 powi p
            in if 2 ^ 1024 \<le> r then PosInfinity else Finite r))"

definition negate :: "number \<Rightarrow> number" where
  "negate x =
     (case x of
        NaN \<Rightarrow> NaN
      | PosInfinity \<Rightarrow> NegInfinity
      | NegInfinity \<Rightarrow> PosInfinity
      | Finite q \<Rightarrow> Finite (- q))"

text \<open>
  \<open>ExponentPart\<close> of the numeric string grammar, without its indicator: an optional sign
  and at least one decimal digit.
\<close>

definition parseExponent :: "jsstring \<Rightarrow> int option" where
  "parseExponent s =
     (let negative = (case s of c # _ \<Rightarrow> c = codeUnit CHR ''-'' | [] \<Rightarrow> False);
          ds = (case s of
                  c # cs \<Rightarrow>
                    if c = codeUnit CHR ''+'' \<or> c = codeUnit CHR ''-'' then cs else s
                | [] \<Rightarrow> [])
      in if ds = [] then None
         else (case digitsValue 10 0 ds of
                 None \<Rightarrow> None
               | Some n \<Rightarrow> Some (if negative then - int n else int n)))"

text \<open>
  The mathematical value of a \<open>StrUnsignedDecimalLiteral\<close> other than \<open>Infinity\<close>:
  digits, an optional point with digits on either side (at least one digit in all), an
  optional exponent part.
\<close>

definition parseUnsignedDecimal :: "jsstring \<Rightarrow> rat option" where
  "parseUnsignedDecimal s =
     (let mantissa = takeWhile (\<lambda>c. \<not> isExponentIndicator c) s;
          rest = dropWhile (\<lambda>c. \<not> isExponentIndicator c) s;
          intPart = takeWhile isDecimalDigit mantissa;
          afterInt = dropWhile isDecimalDigit mantissa;
          fracPart = (case afterInt of
                        [] \<Rightarrow> Some []
                      | c # fs \<Rightarrow> if c = codeUnit CHR ''.'' then Some fs else None);
          exponent = (case rest of [] \<Rightarrow> Some 0 | _ # es \<Rightarrow> parseExponent es)
      in case (fracPart, exponent) of
           (Some fs, Some e) \<Rightarrow>
             if intPart @ fs = [] then None
             else (case digitsValue 10 0 (intPart @ fs) of
                     None \<Rightarrow> None
                   | Some n \<Rightarrow>
                       Some (if 0 \<le> e
                             then of_nat n / 10 ^ length fs * 10 ^ nat e
                             else of_nat n / 10 ^ length fs / 10 ^ nat (- e)))
         | _ \<Rightarrow> None)"

definition parseNonDecimal :: "nat \<Rightarrow> jsstring \<Rightarrow> number" where
  "parseNonDecimal radix ds =
     (if ds = [] then NaN
      else (case digitsValue radix 0 ds of
              None \<Rightarrow> NaN
            | Some n \<Rightarrow> roundToBinary64 (of_nat n)))"

definition parseSigned :: "bool \<Rightarrow> jsstring \<Rightarrow> number" where
  "parseSigned negative s =
     (let magnitude =
            (if s = str ''Infinity'' then PosInfinity
             else (case parseUnsignedDecimal s of
                     None \<Rightarrow> NaN
                   | Some q \<Rightarrow> roundToBinary64 q))
      in if negative then negate magnitude else magnitude)"

text \<open>
  \<open>Number(string)\<close>, the built-in conversion (ECMAScript \<open>StringToNumber\<close>): white space
  is stripped; the empty string is 0; a \<open>0x\<close>, \<open>0o\<close> or \<open>0b\<close> literal is read in its
  radix; otherwise an optional sign and \<open>Infinity\<close> or a decimal literal; anything else
  is NaN. The mathematical value read is rounded to binary64, which is what the
  standard prescribes for literals of up to 20 significant digits. Zero has no sign here:
  the component only compares the result with \<open>!==\<close>, which does not tell the two
  zeros apart.
\<close>

definition Number :: "jsstring \<Rightarrow> number" where
  "Number s =
     (case trim s of
        [] \<Rightarrow> Finite 0
      | c # cs \<Rightarrow>
          (case cs of
             d # ds \<Rightarrow>
               if c = codeUnit CHR ''0'' \<and> (d = codeUnit CHR ''x'' \<or> d = codeUnit CHR ''X'')
               then parseNonDecimal 16 ds
               else if c = codeUnit CHR ''0'' \<and> (d = codeUnit CHR ''o'' \<or> d = codeUnit CHR ''O'')
               then parseNonDecimal 8 ds
               else if c = codeUnit CHR ''0'' \<and> (d = codeUnit CHR ''b'' \<or> d = codeUnit CHR ''B'')
               then parseNonDecimal 2 ds
               else if c = codeUnit CHR ''+'' then parseSigned False cs
               else if c = codeUnit CHR ''-'' then parseSigned True cs
               else parseSigned False (c # cs)
           | [] \<Rightarrow> parseSigned False [c]))"

definition Number_isNaN :: "number \<Rightarrow> bool" where
  "Number_isNaN x \<longleftrightarrow> x = NaN"

text \<open>
  The template literal \<open>`${n}`\<close> on a non-negative integer: its decimal digits. The
  component applies it to catalog amounts only.
\<close>

fun showNat :: "nat \<Rightarrow> jsstring" where
  "showNat n =
     (if n < 10 then [str ''0123456789'' ! n]
      else showNat (n div 10) @ [str ''0123456789'' ! (n mod 10)])"

declare showNat.simps [simp del]

definition toString :: "rat \<Rightarrow> jsstring" where
  "toString q = showNat (nat \<lfloor>q\<rfloor>)"

subsection \<open>Tier catalog\<close>

record Tier =
  tier_id :: jsstring
  tier_name :: jsstring
  tier_amount :: rat
  tier_rate :: rat
  tier_description :: jsstring

definition TIERS :: "Tier list" where
  "TIERS =
     [\<lparr>tier_id = str ''tier1'', tier_name = str ''Tier 1'', tier_amount = 10000, tier_rate = 5 / 100,
        tier_description = str ''5% interest per week''\<rparr>,
      \<lparr>tier_id = str ''tier2'', tier_name = str ''Tier 2'', tier_amount = 20000, tier_rate = 1 / 10,
        tier_description = str ''10% interest per week''\<rparr>,
      \<lparr>tier_id = str ''tier3'', tier_name = str ''Tier 3'', tier_amount = 30000, tier_rate = 2 / 10,
        tier_description = str ''20% interest per week''\<rparr>]"

definition MAX_MEMBERS :: nat where
  "MAX_MEMBERS = 12"

text \<open>
  \<open>getTier\<close> is \<open>TIERS.find(...)!\<close>. The parameter type \<open>TierId\<close> is the union of the three
  catalog ids and exists at compile time only, as does the non-null assertion \<open>!\<close>; at
  run time the argument is a string and \<open>find\<close> returns \<open>undefined\<close>, here \<open>None\<close>, when
  no tier matches. Nothing is thrown.
\<close>

definition getTier :: "jsstring \<Rightarrow> Tier option" where
  "getTier tierId = find (\<lambda>tier. tier_id tier = tierId) TIERS"

subsection \<open>Members and the component state\<close>

record Member =
  member_id :: jsstring
  member_name :: jsstring
  member_tierId :: jsstring
  member_amount :: rat
  weeklyInterest :: rat
  startWeek :: rat

record FormState =
  form_name :: jsstring
  form_tierId :: jsstring
  form_amount :: jsstring

text \<open>
  The \<open>error\<close> cell holds the message shown under the form; the empty string is \<open>None\<close>.
  The four messages of \<open>handleSubmit\<close> are, in order: ``Please enter the student name.'',
  ``Amount must be a number.'', ``Tier <name> requires exactly <amount>.'' (with the
  tier's name and its amount formatted as currency) and ``The group already has 12
  members.''.
\<close>

datatype form_error =
    EmptyNameError
  | InvalidAmountError
  | TierMismatchError jsstring rat
  | CapacityExceededError

record App =
  members :: "Member list"
  currentWeek :: rat
  formState :: FormState
  error :: "form_error option"

definition initial :: App where
  "initial =
     \<lparr>members = [], currentWeek = 1,
      formState = \<lparr>form_name = [], form_tierId = str ''tier1'',
                   form_amount = toString (tier_amount (hd TIERS))\<rparr>,
      error = None\<rparr>"

text \<open>
  A handler either returns or throws; in both cases the state holds the updates made
  up to that point. The only exception the handlers can raise is the \<open>TypeError\<close> of
  reading a property of \<open>undefined\<close>.
\<close>

datatype exn = TypeError

datatype completion = Returns App | Throws exn App

fun after :: "completion \<Rightarrow> App" where
  "after (Returns s) = s"
| "after (Throws e s) = s"

subsection \<open>Derived values\<close>

definition computeProjectedTotal :: "Member \<Rightarrow> rat \<Rightarrow> rat" where
  "computeProjectedTotal member week =
     (let weeksActive = max 1 (week - startWeek member + 1)
      in member_amount member + weeklyInterest member * weeksActive)"

record Totals =
  totalPrincipal :: rat
  totalWithInterest :: rat
  totalWeeklyInterest :: rat

text \<open>\<open>Array.prototype.reduce\<close> with an initial value is a left fold.\<close>

definition totals :: "Member list \<Rightarrow> rat \<Rightarrow> Totals" where
  "totals ms week =
     \<lparr>totalPrincipal = foldl (\<lambda>sum member. sum + member_amount member) 0 ms,
      totalWithInterest = foldl (\<lambda>sum member. sum + computeProjectedTotal member week) 0 ms,
      totalWeeklyInterest = foldl (\<lambda>sum member. sum + weeklyInterest member) 0 ms\<rparr>"

definition availableSlots :: "App \<Rightarrow> int" where
  "availableSlots s = int MAX_MEMBERS - int (length (members s))"

subsection \<open>Event handlers\<close>

text \<open>
  \<open>handleSubmit\<close>. The identifier that \<open>crypto.randomUUID()\<close> would return is the
  argument \<open>uuid\<close>. \<open>selectedTier\<close> is looked up before the checks but first read in the
  third one, where an \<open>undefined\<close> tier throws. \<open>parsedAmount\<close> is not NaN there;
  \<open>parsedAmount !== selectedTier.amount\<close> is true of both infinities, the tier
  amounts being finite, and is inequality of the values otherwise.
\<close>

definition handleSubmit :: "jsstring \<Rightarrow> App \<Rightarrow> completion" where
  "handleSubmit uuid s =
     (let s0 = s\<lparr>error := None\<rparr>;
          trimmedName = trim (form_name (formState s));
          selectedTier = getTier (form_tierId (formState s));
          parsedAmount = Number (form_amount (formState s))
      in if trimmedName = [] then Returns (s0\<lparr>error := Some EmptyNameError\<rparr>)
         else if Number_isNaN parsedAmount then Returns (s0\<lparr>error := Some InvalidAmountError\<rparr>)
         else (case selectedTier of
                 None \<Rightarrow> Throws TypeError s0
               | Some tier \<Rightarrow>
                   (let mismatch = Returns (s0\<lparr>error :=
                          Some (TierMismatchError (tier_name tier) (tier_amount tier))\<rparr>)
                    in case parsedAmount of
                         Finite amount \<Rightarrow>
                           if amount \<noteq> tier_amount tier then mismatch
                           else if length (members s) \<ge> MAX_MEMBERS
                           then Returns (s0\<lparr>error := Some CapacityExceededError\<rparr>)
                           else
                             (let newMember =
                                    \<lparr>member_id = uuid, member_name = trimmedName,
                                     member_tierId = tier_id tier,
                                     member_amount = amount,
                                     weeklyInterest = amount * tier_rate tier,
                                     startWeek = currentWeek s\<rparr>
                              in Returns (s0\<lparr>members := members s @ [newMember],
                                            formState :=
                                              \<lparr>form_name = [],
                                               form_tierId = form_tierId (formState s),
                                               form_amount = toString (tier_amount tier)\<rparr>\<rparr>))
                       | _ \<Rightarrow> mismatch)))"

definition handleTierChange :: "jsstring \<Rightarrow> App \<Rightarrow> completion" where
  "handleTierChange tierId s =
     (case getTier tierId of
        None \<Rightarrow> Throws TypeError s
      | Some selectedTier \<Rightarrow>
          Returns (s\<lparr>formState := (formState s)\<lparr>form_tierId := tierId,
                        form_amount := toString (tier_amount selectedTier)\<rparr>\<rparr>))"

text \<open>The \<open>onChange\<close> handlers of the name and amount inputs.\<close>

definition changeName :: "jsstring \<Rightarrow> App \<Rightarrow> App" where
  "changeName v s = s\<lparr>formState := (formState s)\<lparr>form_name := v\<rparr>\<rparr>"

definition changeAmount :: "jsstring \<Rightarrow> App \<Rightarrow> App" where
  "changeAmount v s = s\<lparr>formState := (formState s)\<lparr>form_amount := v\<rparr>\<rparr>"

definition handleWithdraw :: "jsstring \<Rightarrow> App \<Rightarrow> App" where
  "handleWithdraw memberId s =
     s\<lparr>members := filter (\<lambda>member. member_id member \<noteq> memberId) (members s)\<rparr>"

definition advanceWeek :: "App \<Rightarrow> App" where
  "advanceWeek s = s\<lparr>currentWeek := currentWeek s + 1\<rparr>"

subsection \<open>Reachable states\<close>

text \<open>
  The events of the page. A submit carries the identifier generated for it; a
  withdrawal carries the identifier of the row clicked. No assumption is made on
  either, nor on the strings typed or selected.
\<close>

datatype event =
    Submit jsstring
  | ChangeName jsstring
  | ChangeTier jsstring
  | ChangeAmount jsstring
  | Withdraw jsstring
  | AdvanceWeek

fun dispatch :: "event \<Rightarrow> App \<Rightarrow> App" where
  "dispatch (Submit uuid) s = after (handleSubmit uuid s)"
| "dispatch (ChangeName v) s = changeName v s"
| "dispatch (ChangeTier tierId) s = after (handleTierChange tierId s)"
| "dispatch (ChangeAmount v) s = changeAmount v s"
| "dispatch (Withdraw memberId) s = handleWithdraw memberId s"
| "dispatch AdvanceWeek s = advanceWeek s"

inductive reachable :: "App \<Rightarrow> bool" where
  reachable_initial: "reachable initial"
| reachable_dispatch: "reachable s \<Longrightarrow> reachable (dispatch e s)"

definition run :: "event list \<Rightarrow> App \<Rightarrow> App" where
  "run es s = foldl (\<lambda>st e. dispatch e st) s es"

subsection \<open>An example run\<close>

text \<open>
  Twelve registrations from the initial state, each a name typed and the form
  submitted with the default tier and amount.
\<close>

definition fullGroup :: App where
  "fullGroup =
     run [ChangeName (str ''Ada''), Submit (str ''u1''),
          ChangeName (str ''Bo''), Submit (str ''u2''),
          ChangeName (str ''Cy''), Submit (str ''u3''),
          ChangeName (str ''Di''), Submit (str ''u4''),
          ChangeName (str ''Ed''), Submit (str ''u5''),
          ChangeName (str ''Flo''), Submit (str ''u6''),
          ChangeName (str ''Gus''), Submit (str ''u7''),
          ChangeName (str ''Hal''), Submit (str ''u8''),
          ChangeName (str ''Ida''), Submit (str ''u9''),
          ChangeName (str ''Jo''), Submit (str ''u10''),
          ChangeName (str ''Kim''), Submit (str ''u11''),
          ChangeName (str ''Lou''), Submit (str ''u12'')] initial"

section \<open>Rounding to binary64\<close>

text \<open>
  \<open>bitLength\<close> and \<open>binade\<close> compute what their names say, and \<open>roundToBinary64\<close>
  returns the nearest value of the binary64 grid: it is exact on the integers below
  \<open>2^53\<close> and gives infinity from \<open>2^1024\<close> on.
\<close>

lemma bitLength_bounds:
  "0 < n \<Longrightarrow> 2 ^ (bitLength n - 1) \<le> n \<and> n < 2 ^ bitLength n"
proof (induction n rule: bitLength.induct)
  case (1 n)
  show ?case
  proof (cases "n div 2 = 0")
    case True
    with 1 have "n = 1" by (simp add: div_eq_0_iff) 
    then show ?thesis by (simp add: bitLength.simps)
  next
    case False
    with 1 have ih: "2 ^ (bitLength (n div 2) - 1) \<le> n div 2"
      "n div 2 < 2 ^ bitLength (n div 2)"
      by simp_all
    have pos: "0 < bitLength (n div 2)"
      using False by (simp add: bitLength.simps [of "n div 2"])
    have eq: "bitLength n = Suc (bitLength (n div 2))"
      using 1(2) by (simp add: bitLength.simps [of n])
    from pos have "(2::nat) ^ bitLength (n div 2) = 2 * 2 ^ (bitLength (n div 2) - 1)"
      by (cases "bitLength (n div 2)") simp_all
    with ih show ?thesis unfolding eq by simp linarith
  qed
qed

lemma bitLength_pos: "0 < n \<Longrightarrow> 0 < bitLength n"
  by (simp add: bitLength.simps [of n])

lemma bitLength_unique:
  assumes "0 < k" "2 ^ (k - 1) \<le> n" "n < 2 ^ k"
  shows "bitLength n = k"
proof -
  from assms have n: "0 < n"
    by (metis less_le_trans zero_less_numeral zero_less_power)
  note b = bitLength_bounds [OF n] and bp = bitLength_pos [OF n]
  have "(2::nat) ^ (k - 1) < 2 ^ bitLength n"
    using assms(2) b by linarith
  then have 1: "k - 1 < bitLength n" by simp
  have "(2::nat) ^ (bitLength n - 1) < 2 ^ k"
    using assms(3) b by linarith
  then have 2: "bitLength n - 1 < k" by simp
  from 1 2 assms(1) bp show ?thesis by linarith
qed

lemma binade_bounds:
  assumes "0 < q"
  shows "2 powi binade q \<le> q \<and> q < 2 powi (binade q + 1)"
proof (cases "1 \<le> q")
  case True
  define n where "n = nat \<lfloor>q\<rfloor>"
  from True have fl: "1 \<le> \<lfloor>q\<rfloor>" by simp
  then have n: "0 < n" and nq: "of_nat n \<le> q" and qn: "q < of_nat n + 1"
    unfolding n_def by (simp_all, linarith+)
  note b = bitLength_bounds [OF n] and bp = bitLength_pos [OF n]
  have e: "binade q = int (bitLength n) - 1"
    using True by (simp add: binade_def n_def)
  have lo: "(2::rat) powi (int (bitLength n) - 1) = 2 ^ (bitLength n - 1)"
    using bp by (simp add: power_int_def nat_diff_distrib)
  have hi: "(2::rat) powi (int (bitLength n) - 1 + 1) = 2 ^ bitLength n"
    by simp
  have "(2::rat) ^ (bitLength n - 1) \<le> of_nat n"
    using b by (metis of_nat_le_iff of_nat_numeral of_nat_power)
  with nq have 1: "(2::rat) ^ (bitLength n - 1) \<le> q" by linarith
  have "n + 1 \<le> 2 ^ bitLength n" using b by simp
  then have "(of_nat (n + 1) :: rat) \<le> of_nat (2 ^ bitLength n)"
    by (simp only: of_nat_le_iff)
  then have "(of_nat n :: rat) + 1 \<le> 2 ^ bitLength n" by simp
  with qn have 2: "q < 2 ^ bitLength n" by linarith
  from 1 2 show ?thesis unfolding e lo hi by simp
next
  case False
  with assms have q1: "q < 1" by simp
  define m where "m = \<lceil>1 / q\<rceil>"
  define n where "n = nat (m - 1)"
  from assms q1 have inv: "1 < 1 / q" by simp
  then have m2: "2 \<le> m" unfolding m_def by (simp add: le_ceiling_iff) 
  then have n: "0 < n" and nm: "int n = m - 1" unfolding n_def by simp_all
  have up: "1 / q \<le> of_int m" unfolding m_def by simp
  have lowr: "of_int (m - 1) < 1 / q" unfolding m_def
    using ceiling_correct [of "1 / q"] by simp
  note b = bitLength_bounds [OF n] and bp = bitLength_pos [OF n]
  have e: "binade q = - int (bitLength n)"
    using False by (simp add: binade_def n_def m_def)
  have lo: "(2::rat) powi (- int (bitLength n)) = 1 / 2 ^ bitLength n"
    by (simp add: power_int_minus_divide)
  have hi: "(2::rat) powi (- int (bitLength n) + 1) = 1 / 2 ^ (bitLength n - 1)"
  proof -
    have "- int (bitLength n) + 1 = - int (bitLength n - 1)" using bp by simp
    then show ?thesis by (simp only: power_int_minus_divide power_int_of_nat)
  qed
  have "int n + 1 \<le> 2 ^ bitLength n" using b
    by (metis Suc_leI of_nat_Suc of_nat_le_iff of_nat_numeral of_nat_power add.commute plus_1_eq_Suc)
  then have "m \<le> 2 ^ bitLength n" using nm by simp
  then have "(of_int m :: rat) \<le> 2 ^ bitLength n"
    by (metis of_int_le_iff of_int_numeral of_int_power)
  with up have "1 / q \<le> 2 ^ bitLength n" by linarith
  with assms have 1: "1 / 2 ^ bitLength n \<le> q"
    by (simp add: field_simps)
  have "(2::int) ^ (bitLength n - 1) \<le> m - 1" using b nm
    by (metis of_nat_le_iff of_nat_numeral of_nat_power)
  then have "(2::rat) ^ (bitLength n - 1) \<le> of_int (m - 1)"
    by (metis of_int_le_iff of_int_numeral of_int_power)
  with lowr have "(2::rat) ^ (bitLength n - 1) < 1 / q" by linarith
  with assms have 2: "q < 1 / 2 ^ (bitLength n - 1)"
    by (simp add: field_simps)
  from 1 2 show ?thesis unfolding e lo hi by simp
qed

lemma binade_unique:
  assumes "0 < q" "2 powi e \<le> q" "q < 2 powi (e + 1)"
  shows "binade q = e"
proof -
  note b = binade_bounds [OF assms(1)]
  have "(2::rat) powi e < 2 powi (binade q + 1)" using assms(2) b by linarith
  then have 1: "e < binade q + 1"
    by (metis power_int_increasing linorder_not_le one_le_numeral)
  have "(2::rat) powi binade q < 2 powi (e + 1)" using assms(3) b by linarith
  then have 2: "binade q < e + 1"
    by (metis power_int_increasing linorder_not_le one_le_numeral)
  from 1 2 show ?thesis by simp
qed

lemma roundHalfEven_unique:
  assumes "of_int n - 1 / 2 < x" "x < of_int n + 1 / 2"
  shows "roundHalfEven x = n"
proof (cases "of_int n \<le> x")
  case True
  with assms have "\<lfloor>x\<rfloor> = n" by (intro floor_unique) simp_all
  with assms show ?thesis by (simp add: roundHalfEven_def Let_def)
next
  case False
  with assms have "\<lfloor>x\<rfloor> = n - 1" by (intro floor_unique) simp_all
  with assms False show ?thesis by (simp add: roundHalfEven_def Let_def)
qed

lemma roundHalfEven_of_int: "roundHalfEven (of_int n) = n"
  by (rule roundHalfEven_unique) simp_all

lemma roundHalfEven_mono_lower:
  assumes "of_int n \<le> x"
  shows "n \<le> roundHalfEven x"
proof -
  from assms have "n \<le> \<lfloor>x\<rfloor>" by (simp add: le_floor_iff)
  then show ?thesis by (auto simp: roundHalfEven_def Let_def)
qed

lemma powi2_less_imp_less: "(2::rat) powi a < 2 powi b \<Longrightarrow> a < b"
  by (metis power_int_increasing linorder_not_le one_le_numeral)

lemma roundToBinary64_unfold:
  assumes "q \<noteq> 0" "binade q = e" "- 1022 \<le> e" "roundHalfEven (q / 2 powi (e - 52)) = n"
  shows "roundToBinary64 q =
    (if (2::rat) ^ 1024 \<le> of_int n * 2 powi (e - 52) then PosInfinity
     else Finite (of_int n * 2 powi (e - 52)))"
proof -
  have m: "max e (- 1022) = e" using assms(3) by (rule max_absorb1)
  show ?thesis
    unfolding roundToBinary64_def Let_def assms(2) m assms(4)
    using assms(1) by (simp only: if_False)
qed

lemma roundToBinary64_nearest:
  assumes "0 < q" "2 powi e \<le> q" "q < 2 powi (e + 1)" "- 1022 \<le> e"
    and "of_int n - 1 / 2 < q / 2 powi (e - 52)" "q / 2 powi (e - 52) < of_int n + 1 / 2"
    and "of_int n * 2 powi (e - 52) < (2::rat) ^ 1024"
  shows "roundToBinary64 q = Finite (of_int n * 2 powi (e - 52))"
proof -
  have b: "binade q = e" using assms(1-3) by (rule binade_unique)
  have r: "roundHalfEven (q / 2 powi (e - 52)) = n"
    using assms(5,6) by (rule roundHalfEven_unique)
  from assms(1) have z: "q \<noteq> 0" by simp
  from assms(7) have "\<not> (2::rat) ^ 1024 \<le> of_int n * 2 powi (e - 52)"
    by (simp only: not_le)
  with roundToBinary64_unfold [OF z b assms(4) r] show ?thesis
    by (simp only: if_False)
qed

lemma roundToBinary64_of_nat:
  assumes "n < 2 ^ 53"
  shows "roundToBinary64 (of_nat n) = Finite (of_nat n)"
proof (cases "n = 0")
  case True
  then show ?thesis by (simp add: roundToBinary64_def)
next
  case False
  define q :: rat where "q = of_nat n"
  define e where "e = binade q"
  from False have q: "0 < q" "1 \<le> q" "q \<noteq> 0" by (simp_all add: q_def)
  note b = binade_bounds [OF q(1), folded e_def]
  have "(2::rat) powi 0 < 2 powi (e + 1)" using b q(2) by simp
  then have "0 < e + 1" by (rule powi2_less_imp_less)
  then have e0: "- 1022 \<le> e" by simp
  have q53: "q < 2 ^ 53" using assms unfolding q_def
    by (metis of_nat_less_iff of_nat_numeral of_nat_power)
  have "(2::rat) powi 53 = 2 ^ 53" by (rule power_int_numeral)
  with q53 b have "(2::rat) powi e < 2 powi 53" by linarith
  then have "e < 53" by (rule powi2_less_imp_less)
  then have e52: "e \<le> 52" by simp
  define k where "k = nat (52 - e)"
  have p: "(2::rat) powi (e - 52) = 1 / 2 ^ k"
  proof -
    have "e - 52 = - int k" using e52 by (simp add: k_def)
    then show ?thesis by (simp only: power_int_minus_divide power_int_of_nat)
  qed
  have "q / 2 powi (e - 52) = of_int (int n * 2 ^ k)"
    by (simp add: p q_def)
  then have r: "roundHalfEven (q / 2 powi (e - 52)) = int n * 2 ^ k"
    by (simp only: roundHalfEven_of_int)
  have restore: "of_int (int n * 2 ^ k) * 2 powi (e - 52) = q"
    by (simp add: p q_def)
  have "(2::rat) ^ 53 \<le> 2 ^ 1024" by (rule power_increasing) simp_all
  with q53 have "\<not> 2 ^ 1024 \<le> q" by linarith
  with roundToBinary64_unfold [OF q(3) e_def [symmetric] e0 r]
  have "roundToBinary64 q = Finite q"
    by (simp only: restore if_False)
  then show ?thesis by (simp only: q_def)
qed

lemma roundToBinary64_overflow:
  assumes "2 ^ 1024 \<le> q"
  shows "roundToBinary64 q = PosInfinity"
proof -
  define e where "e = binade q"
  define n where "n = roundHalfEven (q / 2 powi (e - 52))"
  have "(0::rat) < 2 ^ 1024" by (rule zero_less_power) simp
  with assms have q: "0 < q" "q \<noteq> 0" by linarith+
  note b = binade_bounds [OF q(1), folded e_def]
  have p1024: "(2::rat) powi 1024 = 2 ^ 1024" by (rule power_int_numeral)
  with b assms have "(2::rat) powi 1024 < 2 powi (e + 1)" by linarith
  then have "1024 < e + 1" by (rule powi2_less_imp_less)
  then have e: "1024 \<le> e" "- 1022 \<le> e" by simp_all
  have "(2::rat) powi (52 + (e - 52)) = 2 powi 52 * 2 powi (e - 52)"
    by (rule power_int_add) simp
  moreover have "52 + (e - 52) = e" by simp
  moreover have "(2::rat) powi 52 = of_int (2 ^ 52)" by simp
  ultimately have split: "(2::rat) powi e = of_int (2 ^ 52) * 2 powi (e - 52)"
    by (simp only:)
  have pos: "(0::rat) < 2 powi (e - 52)" by simp
  have "(of_int (2 ^ 52) :: rat) * 2 powi (e - 52) \<le> q" using b split by (simp only:)
  with pos have "(of_int (2 ^ 52) :: rat) \<le> q / 2 powi (e - 52)"
    by (simp only: pos_le_divide_eq)
  then have "2 ^ 52 \<le> n"
    unfolding n_def by (rule roundHalfEven_mono_lower)
  then have "(of_int (2 ^ 52) :: rat) \<le> of_int n"
    by (simp only: of_int_le_iff)
  then have "(of_int (2 ^ 52) :: rat) * 2 powi (e - 52) \<le> of_int n * 2 powi (e - 52)"
    using pos by (intro mult_right_mono) simp_all
  moreover have "(2::rat) powi 1024 \<le> 2 powi e"
    using e(1) by (intro power_int_increasing) simp_all
  ultimately have "(2::rat) ^ 1024 \<le> of_int n * 2 powi (e - 52)"
    unfolding split [symmetric] p1024 by (rule order_trans [rotated])
  with roundToBinary64_unfold [OF q(2) e_def [symmetric] e(2) n_def [symmetric]]
  show ?thesis by (simp only: if_True)
qed

section \<open>Evaluation and case analysis of the handlers\<close>

lemmas Number_simps =
  Number_def trim_def isWhiteSpace_def parseSigned_def parseUnsignedDecimal_def
  parseExponent_def parseNonDecimal_def isExponentIndicator_def isDecimalDigit_def
  digitValue_def str_def codeUnit_def negate_def

lemma roundToBinary64_catalog:
  "roundToBinary64 10000 = Finite 10000" "roundToBinary64 20000 = Finite 20000"
  "roundToBinary64 30000 = Finite 30000"
  using roundToBinary64_of_nat [of 10000] roundToBinary64_of_nat [of 20000]
    roundToBinary64_of_nat [of 30000]
  by simp_all

lemma roundToBinary64_above_10000:
  "roundToBinary64 (100000000000000001 / 10000000000000) = Finite 10000"
  using roundToBinary64_nearest
    [where q = "100000000000000001 / 10000000000000" and e = 13 and n = 5497558138880000]
  by simp

lemma Number_catalog:
  "Number (str ''10000'') = Finite 10000" "Number (str ''20000'') = Finite 20000"
  "Number (str ''30000'') = Finite 30000"
  by (simp_all add: Number_simps roundToBinary64_catalog)


lemma Number_examples:
  "Number (str ''abc'') = NaN" "Number (str ''Infinity'') = PosInfinity"
  "Number (str ''-Infinity'') = NegInfinity"
  "Number (str ''10000.0000000000001'') = Finite 10000"
  "Number (str ''1e400'') = PosInfinity"
  by (simp_all add: Number_simps roundToBinary64_above_10000 roundToBinary64_overflow)

lemma unat_codeUnit: "unat (codeUnit c) = of_char c"
proof -
  have "(of_char c :: 16 word) = of_nat (of_char c)"
    by (simp only: of_nat_of_char)
  then have "unat (codeUnit c) = (of_char c :: nat) mod 2 ^ LENGTH(16)"
    unfolding codeUnit_def by (simp only: unat_of_nat)
  moreover have "(of_char c :: nat) < 256" by (rule nat_of_char_less_256)
  ultimately show ?thesis by simp
qed

lemma codeUnit_eq_iff: "codeUnit a = codeUnit b \<longleftrightarrow> a = b"
proof
  assume "codeUnit a = codeUnit b"
  then have "unat (codeUnit a) = unat (codeUnit b)" by simp
  then show "a = b" by (simp only: unat_codeUnit of_char_eq_iff)
qed simp

lemma str_eq_iff: "str a = str b \<longleftrightarrow> a = b"
  unfolding str_def
  by (rule inj_map_eq_map) (simp add: inj_def codeUnit_eq_iff)

lemma str_eq_Nil_iff: "str a = [] \<longleftrightarrow> a = []"
  by (simp add: str_def)

lemma toString_catalog:
  "toString 10000 = str ''10000''" "toString 20000 = str ''20000''"
  "toString 30000 = str ''30000''"
  by (simp_all add: toString_def showNat.simps str_def)

lemma getTier_catalog:
  "getTier (str ''tier1'') = Some (TIERS ! 0)"
  "getTier (str ''tier2'') = Some (TIERS ! 1)"
  "getTier (str ''tier3'') = Some (TIERS ! 2)"
  by (simp_all add: getTier_def TIERS_def str_eq_iff)

lemma getTier_None_iff:
  "getTier tierId = None \<longleftrightarrow> tierId \<notin> {str ''tier1'', str ''tier2'', str ''tier3''}"
  by (auto simp: getTier_def TIERS_def)

lemma trim_examples:
  "trim (str ''  '') = []" "trim [] = []" "trim (str ''Ada'') = str ''Ada''"
  "trim (str ''Mo'') = str ''Mo''" "trim (str ''Bo'') = str ''Bo''"
  "trim (str ''Cy'') = str ''Cy''" "trim (str ''Di'') = str ''Di''"
  "trim (str ''Ed'') = str ''Ed''" "trim (str ''Flo'') = str ''Flo''"
  "trim (str ''Gus'') = str ''Gus''" "trim (str ''Hal'') = str ''Hal''"
  "trim (str ''Ida'') = str ''Ida''" "trim (str ''Jo'') = str ''Jo''"
  "trim (str ''Kim'') = str ''Kim''" "trim (str ''Lou'') = str ''Lou''"
  by (simp_all add: trim_def isWhiteSpace_def str_def codeUnit_def)

lemma getTier_SomeD:
  assumes "getTier tierId = Some tier"
  shows "tier \<in> set TIERS" and "tier_id tier = tierId"
  using assms by (auto simp: getTier_def find_Some_iff)

lemma handleSubmit_empty_name:
  assumes "trim (form_name (formState s)) = []"
  shows "handleSubmit uuid s = Returns (s\<lparr>error := Some EmptyNameError\<rparr>)"
  using assms by (simp add: handleSubmit_def)

lemma handleSubmit_NaN:
  assumes "trim (form_name (formState s)) \<noteq> []"
    and "Number (form_amount (formState s)) = NaN"
  shows "handleSubmit uuid s = Returns (s\<lparr>error := Some InvalidAmountError\<rparr>)"
  using assms by (simp add: handleSubmit_def Number_isNaN_def)

lemma handleSubmit_undefined_tier:
  assumes "trim (form_name (formState s)) \<noteq> []"
    and "Number (form_amount (formState s)) \<noteq> NaN"
    and "getTier (form_tierId (formState s)) = None"
  shows "handleSubmit uuid s = Throws TypeError (s\<lparr>error := None\<rparr>)"
  using assms by (simp add: handleSubmit_def Number_isNaN_def)

lemma handleSubmit_mismatch:
  assumes "trim (form_name (formState s)) \<noteq> []"
    and "Number (form_amount (formState s)) \<noteq> NaN"
    and "getTier (form_tierId (formState s)) = Some tier"
    and "Number (form_amount (formState s)) \<noteq> Finite (tier_amount tier)"
  shows "handleSubmit uuid s =
           Returns (s\<lparr>error := Some (TierMismatchError (tier_name tier) (tier_amount tier))\<rparr>)"
  using assms
  by (cases "Number (form_amount (formState s))")
     (simp_all add: handleSubmit_def Number_isNaN_def)

lemma handleSubmit_full:
  assumes "trim (form_name (formState s)) \<noteq> []"
    and "getTier (form_tierId (formState s)) = Some tier"
    and "Number (form_amount (formState s)) = Finite (tier_amount tier)"
    and "MAX_MEMBERS \<le> length (members s)"
  shows "handleSubmit uuid s = Returns (s\<lparr>error := Some CapacityExceededError\<rparr>)"
  using assms by (simp add: handleSubmit_def Number_isNaN_def)

lemma handleSubmit_accepted:
  assumes "trim (form_name (formState s)) \<noteq> []"
    and "getTier (form_tierId (formState s)) = Some tier"
    and "Number (form_amount (formState s)) = Finite (tier_amount tier)"
    and "length (members s) < MAX_MEMBERS"
  shows "handleSubmit uuid s =
           Returns (s\<lparr>error := None,
              members := members s @
                [\<lparr>member_id = uuid, member_name = trim (form_name (formState s)),
                  member_tierId = tier_id tier, member_amount = tier_amount tier,
                  weeklyInterest = tier_amount tier * tier_rate tier,
                  startWeek = currentWeek s\<rparr>],
              formState := \<lparr>form_name = [], form_tierId = form_tierId (formState s),
                             form_amount = toString (tier_amount tier)\<rparr>\<rparr>)"
  using assms by (simp add: handleSubmit_def Number_isNaN_def)

lemma handleSubmit_cases [case_names rejected thrown accepted]:
  obtains e where "handleSubmit uuid s = Returns (s\<lparr>error := Some e\<rparr>)"
  | "handleSubmit uuid s = Throws TypeError (s\<lparr>error := None\<rparr>)"
  | tier where "getTier (form_tierId (formState s)) = Some tier"
      and "length (members s) < MAX_MEMBERS"
      and "handleSubmit uuid s =
             Returns (s\<lparr>error := None,
                members := members s @
                  [\<lparr>member_id = uuid, member_name = trim (form_name (formState s)),
                    member_tierId = tier_id tier, member_amount = tier_amount tier,
                    weeklyInterest = tier_amount tier * tier_rate tier,
                    startWeek = currentWeek s\<rparr>],
                formState := \<lparr>form_name = [], form_tierId = form_tierId (formState s),
                               form_amount = toString (tier_amount tier)\<rparr>\<rparr>)"
proof (cases "trim (form_name (formState s)) = []")
  case True
  then show ?thesis using that(1) handleSubmit_empty_name by blast
next
  case name: False
  show ?thesis
  proof (cases "Number (form_amount (formState s)) = NaN")
    case True
    with name show ?thesis using that(1) handleSubmit_NaN by blast
  next
    case num: False
    show ?thesis
    proof (cases "getTier (form_tierId (formState s))")
      case None
      with name num show ?thesis using that(2) handleSubmit_undefined_tier by blast
    next
      case (Some tier)
      show ?thesis
      proof (cases "Number (form_amount (formState s)) = Finite (tier_amount tier)")
        case False
        with name num Some show ?thesis using that(1) handleSubmit_mismatch by blast
      next
        case amount: True
        show ?thesis
        proof (cases "length (members s) < MAX_MEMBERS")
          case True
          with name Some amount show ?thesis
            using that(3) handleSubmit_accepted by blast
        next
          case False
          then have "MAX_MEMBERS \<le> length (members s)" by simp
          with name Some amount show ?thesis
            using that(1) handleSubmit_full by blast
        qed
      qed
    qed
  qed
qed

lemma foldl_add_sum_list:
  fixes f :: "'a \<Rightarrow> rat"
  shows "foldl (\<lambda>sum x. sum + f x) acc xs = acc + sum_list (map f xs)"
  by (induction xs arbitrary: acc) (simp_all add: add.assoc)

lemma funpow_advanceWeek:
  "(advanceWeek ^^ n) s = s\<lparr>currentWeek := currentWeek s + of_nat n\<rparr>"
  by (induction n) (simp_all add: advanceWeek_def add.assoc add.commute)

lemma run_append: "run (es @ es') s = run es' (run es s)"
  by (simp add: run_def)

lemma run_Nil: "run [] s = s" by (simp add: run_def)

lemma run_Cons: "run (e # es) s = run es (dispatch e s)" by (simp add: run_def)

lemma reachable_run: "reachable s \<Longrightarrow> reachable (run es s)"
  by (induction es arbitrary: s) (simp_all add: run_Nil run_Cons reachable_dispatch)

lemma after_handleSubmit_week: "currentWeek (after (handleSubmit uuid s)) = currentWeek s"
  by (cases uuid s rule: handleSubmit_cases) simp_all

lemma dispatch_week:
  "currentWeek (dispatch e s) = (if e = AdvanceWeek then currentWeek s + 1 else currentWeek s)"
  by (cases e)
     (simp_all add: after_handleSubmit_week changeName_def changeAmount_def handleWithdraw_def
        advanceWeek_def handleTierChange_def split: option.splits)

lemma members_after_handleTierChange: "members (after (handleTierChange tierId s)) = members s"
  by (simp add: handleTierChange_def split: option.splits)

lemma dispatch_length:
  assumes "length (members s) \<le> MAX_MEMBERS"
  shows "length (members (dispatch e s)) \<le> MAX_MEMBERS"
proof (cases e)
  case (Submit uuid)
  show ?thesis
    using assms unfolding Submit
    by (cases uuid s rule: handleSubmit_cases) simp_all
next
  case (Withdraw memberId)
  have "length (filter (\<lambda>member. member_id member \<noteq> memberId) (members s)) \<le> length (members s)"
    by (rule length_filter_le)
  with assms have "length (filter (\<lambda>member. member_id member \<noteq> memberId) (members s))
      \<le> MAX_MEMBERS"
    by (rule order_trans [rotated])
  then show ?thesis unfolding Withdraw by (simp add: handleWithdraw_def)
qed (use assms in \<open>simp_all add: changeName_def changeAmount_def advanceWeek_def
       members_after_handleTierChange\<close>)

lemma reachable_length: "reachable s \<Longrightarrow> length (members s) \<le> MAX_MEMBERS"
  by (induction rule: reachable.induct) (simp_all add: initial_def dispatch_length)

lemma dispatch_startWeek:
  assumes "\<forall>m \<in> set (members s). startWeek m \<le> currentWeek s"
  shows "\<forall>m \<in> set (members (dispatch e s)). startWeek m \<le> currentWeek (dispatch e s)"
proof (cases e)
  case (Submit uuid)
  show ?thesis
    using assms unfolding Submit
    by (cases uuid s rule: handleSubmit_cases) auto
next
  case AdvanceWeek
  show ?thesis
    using assms unfolding AdvanceWeek by (auto simp: advanceWeek_def intro: order_trans)
qed (use assms in \<open>auto simp: changeName_def changeAmount_def handleWithdraw_def
       handleTierChange_def split: option.splits\<close>)

lemma reachable_startWeek:
  "reachable s \<Longrightarrow> \<forall>m \<in> set (members s). startWeek m \<le> currentWeek s"
proof (induction rule: reachable.induct)
  case reachable_initial
  show ?case by (simp add: initial_def)
next
  case (reachable_dispatch s e)
  then show ?case by (intro dispatch_startWeek)
qed

lemma filter_id_split:
  assumes "distinct (map member_id (xs @ m # ys))"
  shows "filter (\<lambda>member. member_id member \<noteq> member_id m) (xs @ m # ys) = xs @ ys"
proof -
  from assms have "\<forall>x \<in> set xs. member_id x \<noteq> member_id m"
    and "\<forall>y \<in> set ys. member_id y \<noteq> member_id m"
    by (auto simp: image_iff)
  then show ?thesis by (simp add: filter_id_conv)
qed

lemmas handler_simps =
  run_def initial_def advanceWeek_def changeName_def changeAmount_def handleTierChange_def
  handleWithdraw_def handleSubmit_def getTier_catalog TIERS_def toString_catalog
  Number_catalog Number_isNaN_def trim_examples str_eq_iff str_eq_Nil_iff MAX_MEMBERS_def

lemma reachable_fullGroup: "reachable fullGroup"
  unfolding fullGroup_def by (intro reachable_run reachable_initial)

lemma fullGroup_state:
  "length (members fullGroup) = 12"
  "map member_id (members fullGroup) =
     [str ''u1'', str ''u2'', str ''u3'', str ''u4'', str ''u5'', str ''u6'', str ''u7'', str ''u8'', str ''u9'', str ''u10'',
      str ''u11'', str ''u12'']"
  "currentWeek fullGroup = 1"
  "formState fullGroup =
     \<lparr>form_name = [], form_tierId = str ''tier1'', form_amount = str ''10000''\<rparr>"
  by (simp_all add: fullGroup_def handler_simps)

section \<open>Tier catalog\<close>

text \<open>
  Claim C3. \<open>getTier\<close> returns the catalog tier with the given id for each of the
  three ids, and whatever it returns has the id asked for. For any other string it
  returns \<open>undefined\<close> and raises nothing: \<open>handleSubmit\<close>, which looks the tier up
  first, still reports an empty name, and throws a \<open>TypeError\<close> only where it reads
  the tier's amount.
\<close>

theorem getTier_lookup:
  "getTier (str ''tier1'') =
     Some \<lparr>tier_id = str ''tier1'', tier_name = str ''Tier 1'', tier_amount = 10000,
           tier_rate = 5 / 100, tier_description = str ''5% interest per week''\<rparr>
   \<and> getTier (str ''tier2'') =
     Some \<lparr>tier_id = str ''tier2'', tier_name = str ''Tier 2'', tier_amount = 20000,
           tier_rate = 1 / 10, tier_description = str ''10% interest per week''\<rparr>
   \<and> getTier (str ''tier3'') =
     Some \<lparr>tier_id = str ''tier3'', tier_name = str ''Tier 3'', tier_amount = 30000,
           tier_rate = 2 / 10, tier_description = str ''20% interest per week''\<rparr>
   \<and> (\<forall>tier. getTier tierId = Some tier \<longrightarrow> tier_id tier = tierId
       \<and> tier \<in> set TIERS)
  
       \<and> (tierId \<notin> {str ''tier1'', str ''tier2'', str ''tier3''} \<longrightarrow> getTier tierId = None)
   \<and> (tierId \<notin> {str ''tier1'', str ''tier2'', str ''tier3''}
       \<and> form_tierId (formState s) = tierId
        \<and> trim (form_name (formState s)) = [] \<longrightarrow>
      handleSubmit uuid s = Returns (s\<lparr>error := Some EmptyNameError\<rparr>))
   \<and> (tierId \<notin> {str ''tier1'', str ''tier2'', str ''tier3''}
       \<and> form_tierId (formState s) = tierId
        \<and> trim (form_name (formState s)) \<noteq> []
            \<and> Number (form_amount (formState s)) \<noteq> NaN \<longrightarrow>
      handleSubmit uuid s = Throws TypeError (s\<lparr>error := None\<rparr>))"
proof (intro conjI impI allI)
  assume "tierId \<notin> {str ''tier1'', str ''tier2'', str ''tier3''}
      \<and> form_tierId (formState s) = tierId
        \<and> trim (form_name (formState s)) \<noteq> []
            \<and> Number (form_amount (formState s)) \<noteq> NaN"
  then show "handleSubmit uuid s = Throws TypeError (s\<lparr>error := None\<rparr>)"
    by (intro handleSubmit_undefined_tier) (simp_all add: getTier_None_iff)
next
  fix tier
  assume "getTier tierId = Some tier"
  then show "tier_id tier = tierId" and "tier \<in> set TIERS"
    by (rule getTier_SomeD)+
qed (simp_all add: getTier_catalog TIERS_def getTier_None_iff handleSubmit_empty_name)

theorem getTier_lookup_witness:
  "getTier (str ''tier4'') = None
   \<and> handleSubmit (str ''u1'')
       \<lparr>members = [], currentWeek = 1,
        formState = \<lparr>form_name = str ''Ada'', form_tierId = str ''tier4'',
                     form_amount = str ''10000''\<rparr>,
        error = None\<rparr> =
     Throws TypeError
       \<lparr>members = [], currentWeek = 1,
        formState = \<lparr>form_name = str ''Ada'', form_tierId = str ''tier4'',
                     form_amount = str ''10000''\<rparr>,
        error = None\<rparr>
   \<and> getTier (str ''tier2'') =
     Some \<lparr>tier_id = str ''tier2'', tier_name = str ''Tier 2'', tier_amount = 20000,
           tier_rate = 1 / 10, tier_description = str ''10% interest per week''\<rparr>"
  using getTier_lookup
    [where tierId = "str ''tier4''" and uuid = "str ''u1''" and
       s = "\<lparr>members = [], currentWeek = 1,
            formState = \<lparr>form_name = str ''Ada'', form_tierId = str ''tier4'',
                         form_amount = str ''10000''\<rparr>,
            error = None\<rparr>"]
  by (simp add: trim_examples Number_catalog getTier_catalog TIERS_def str_eq_iff
      str_eq_Nil_iff)

text \<open>
  For the id \<open>tier4\<close> the lookup returns \<open>undefined\<close>; a submit with that id and an
  empty name runs past the lookup and ends with the empty-name message.
\<close>

theorem getTier_unknown_id_counterexample:
  "getTier (str ''tier4'') = None
   \<and> handleSubmit (str ''u1'')
       \<lparr>members = [], currentWeek = 1,
        formState = \<lparr>form_name = [], form_tierId = str ''tier4'', form_amount = str ''10000''\<rparr>,
        error = None\<rparr> =
     Returns
       \<lparr>members = [], currentWeek = 1,
        formState = \<lparr>form_name = [], form_tierId = str ''tier4'', form_amount = str ''10000''\<rparr>,
        error = Some EmptyNameError\<rparr>"
  by (simp add: getTier_def TIERS_def handleSubmit_def trim_examples str_eq_iff)

section \<open>Registration\<close>

text \<open>
  Claim C2. \<open>handleSubmit\<close> checks, in this order with the first failure reported:
  the trimmed name is not empty; the amount does not parse to NaN; the amount equals
  the selected tier's amount; there are fewer than 12 members. The invalid-amount
  message is set exactly when the name is not empty and the amount parses to NaN. An
  amount that parses to an infinity passes the second check and fails the third.
\<close>

theorem handleSubmit_validation_order:
  "(trim (form_name (formState s)) = [] \<longrightarrow>
      handleSubmit uuid s = Returns (s\<lparr>error := Some EmptyNameError\<rparr>))
   \<and> (trim (form_name (formState s)) \<noteq> []
       \<and> Number (form_amount (formState s)) = NaN \<longrightarrow>
      handleSubmit uuid s = Returns (s\<lparr>error := Some InvalidAmountError\<rparr>))
   \<and> (trim (form_name (formState s)) \<noteq> []
       \<and> Number (form_amount (formState s)) \<noteq> NaN
       \<and> getTier (form_tierId (formState s)) = Some tier
      
           \<and> Number (form_amount (formState s)) \<noteq> Finite (tier_amount tier) \<longrightarrow>
      handleSubmit uuid s =
        Returns (s\<lparr>error := Some (TierMismatchError (tier_name tier) (tier_amount tier))\<rparr>))
   \<and> (trim (form_name (formState s)) \<noteq> []
       \<and> Number (form_amount (formState s)) \<in> {PosInfinity, NegInfinity}
       \<and> getTier (form_tierId (formState s)) = Some tier \<longrightarrow>
      handleSubmit uuid s =
        Returns (s\<lparr>error := Some (TierMismatchError (tier_name tier) (tier_amount tier))\<rparr>))
   \<and> (trim (form_name (formState s)) \<noteq> []
       \<and> getTier (form_tierId (formState s)) = Some tier
       \<and> Number (form_amount (formState s)) = Finite (tier_amount tier)
        \<and> 12 \<le> length (members s) \<longrightarrow>
      handleSubmit uuid s = Returns (s\<lparr>error := Some CapacityExceededError\<rparr>))
   \<and> (trim (form_name (formState s)) \<noteq> []
       \<and> getTier (form_tierId (formState s)) = Some tier
       \<and> Number (form_amount (formState s)) = Finite (tier_amount tier)
        \<and> length (members s) < 12 \<longrightarrow>
      error (after (handleSubmit uuid s)) = None
      \<and> length (members (after (handleSubmit uuid s))) = length (members s) + 1)
   \<and> (error (after (handleSubmit uuid s)) = Some InvalidAmountError
        \<longleftrightarrow> trim (form_name (formState s)) \<noteq> []
            \<and> Number (form_amount (formState s)) = NaN)"
proof (intro conjI impI)
  assume "trim (form_name (formState s)) \<noteq> []
      \<and> Number (form_amount (formState s)) \<in> {PosInfinity, NegInfinity}
      \<and> getTier (form_tierId (formState s)) = Some tier"
  then show "handleSubmit uuid s =
      Returns (s\<lparr>error := Some (TierMismatchError (tier_name tier) (tier_amount tier))\<rparr>)"
    by (intro handleSubmit_mismatch) auto
next
  assume "trim (form_name (formState s)) \<noteq> []
      \<and> getTier (form_tierId (formState s)) = Some tier
      \<and> Number (form_amount (formState s)) = Finite (tier_amount tier)
        \<and> 12 \<le> length (members s)"
  then show "handleSubmit uuid s = Returns (s\<lparr>error := Some CapacityExceededError\<rparr>)"
    by (intro handleSubmit_full [where tier = tier]) (simp_all add: MAX_MEMBERS_def)
next
  assume h: "trim (form_name (formState s)) \<noteq> []
      \<and> getTier (form_tierId (formState s)) = Some tier
      \<and> Number (form_amount (formState s)) = Finite (tier_amount tier)
        \<and> length (members s) < 12"
  then have "length (members s) < MAX_MEMBERS" by (simp add: MAX_MEMBERS_def)
  with h show "error (after (handleSubmit uuid s)) = None"
    and "length (members (after (handleSubmit uuid s))) = length (members s) + 1"
    by (simp_all add: handleSubmit_accepted [where tier = tier])
next
  show "error (after (handleSubmit uuid s)) = Some InvalidAmountError
        \<longleftrightarrow> trim (form_name (formState s)) \<noteq> []
            \<and> Number (form_amount (formState s)) = NaN"
  proof (cases "trim (form_name (formState s)) = []")
    case True
    then show ?thesis by (simp add: handleSubmit_empty_name)
  next
    case name: False
    show ?thesis
    proof (cases "Number (form_amount (formState s)) = NaN")
      case True
      with name show ?thesis by (simp add: handleSubmit_NaN)
    next
      case num: False
      show ?thesis
      proof (cases "getTier (form_tierId (formState s))")
        case None
        with name num show ?thesis by (simp add: handleSubmit_undefined_tier)
      next
        case (Some t)
        show ?thesis
        proof (cases "Number (form_amount (formState s)) = Finite (tier_amount t)")
          case False
          with name num Some show ?thesis by (simp add: handleSubmit_mismatch)
        next
          case True
          with name num Some show ?thesis
            by (cases "length (members s) < MAX_MEMBERS")
               (simp_all add: handleSubmit_accepted [where tier = t]
                  handleSubmit_full [where tier = t])
        qed
      qed
    qed
  qed
qed (simp_all add: handleSubmit_empty_name handleSubmit_NaN handleSubmit_mismatch)

theorem handleSubmit_validation_order_witness:
  "error (after (handleSubmit (str ''u13'')
      (changeAmount (str ''abc'') (changeName (str ''  '') fullGroup)))) = Some EmptyNameError
   \<and> error (after (handleSubmit (str ''u13'')
      (changeAmount (str ''abc'') (changeName (str ''Mo'') fullGroup)))) = Some InvalidAmountError
   \<and> error (after (handleSubmit (str ''u13'')
      (changeAmount (str ''-Infinity'') (changeName (str ''Mo'') fullGroup)))) =
        Some (TierMismatchError (str ''Tier 1'') 10000)
   \<and> error (after (handleSubmit (str ''u13'')
      (changeAmount (str ''20000'') (changeName (str ''Mo'') fullGroup)))) =
        Some (TierMismatchError (str ''Tier 1'') 10000)
   \<and> error (after (handleSubmit (str ''u13'') (changeName (str ''Mo'') fullGroup))) =
        Some CapacityExceededError
   \<and> error (after (handleSubmit (str ''u1'') (changeName (str ''Ada'') initial))) = None
  
       \<and> length (members (after (handleSubmit (str ''u1'') (changeName (str ''Ada'') initial)))) = 1
   \<and> error (after (handleSubmit (str ''u1'')
      (changeAmount (str ''10000.0000000000001'') (changeName (str ''Ada'') initial)))) = None
   \<and> length (members (after (handleSubmit (str ''u1'')
      (changeAmount (str ''10000.0000000000001'') (changeName (str ''Ada'') initial))))) = 1
   \<and> error (after (handleSubmit (str ''u1'')
      (changeAmount (str ''1e400'') (changeName (str ''Ada'') initial)))) =
        Some (TierMismatchError (str ''Tier 1'') 10000)"
proof -
  let ?t = "TIERS ! 0"
  have t: "getTier (str ''tier1'') = Some ?t" "tier_name ?t = str ''Tier 1''" "tier_amount ?t = 10000"
    by (simp_all add: getTier_catalog TIERS_def)
  note ev = changeAmount_def changeName_def fullGroup_state trim_examples Number_examples
    Number_catalog t str_eq_iff str_eq_Nil_iff
  from handleSubmit_validation_order
    [where s = "changeAmount (str ''abc'') (changeName (str ''  '') fullGroup)"
           and uuid = "str ''u13''" and tier = ?t]
  have 1: "error (after (handleSubmit (str ''u13'')
      (changeAmount (str ''abc'') (changeName (str ''  '') fullGroup)))) = Some EmptyNameError"
    by (simp add: ev)
  from handleSubmit_validation_order
    [where s = "changeAmount (str ''abc'') (changeName (str ''Mo'') fullGroup)"
           and uuid = "str ''u13''" and tier = ?t]
  have 2: "error (after (handleSubmit (str ''u13'')
      (changeAmount (str ''abc'') (changeName (str ''Mo'') fullGroup)))) = Some InvalidAmountError"
    by (simp add: ev)
  from handleSubmit_validation_order
    [where s = "changeAmount (str ''-Infinity'') (changeName (str ''Mo'') fullGroup)"
           and uuid = "str ''u13''" and tier = ?t]
  have 3: "error (after (handleSubmit (str ''u13'')
      (changeAmount (str ''-Infinity'') (changeName (str ''Mo'') fullGroup)))) =
        Some (TierMismatchError (str ''Tier 1'') 10000)"
    by (simp add: ev)
  from handleSubmit_validation_order
    [where s = "changeAmount (str ''20000'') (changeName (str ''Mo'') fullGroup)"
           and uuid = "str ''u13''" and tier = ?t]
  have 4: "error (after (handleSubmit (str ''u13'')
      (changeAmount (str ''20000'') (changeName (str ''Mo'') fullGroup)))) =
        Some (TierMismatchError (str ''Tier 1'') 10000)"
    by (simp add: ev)
  from handleSubmit_validation_order
    [where s = "changeName (str ''Mo'') fullGroup" and uuid = "str ''u13''" and tier = ?t]
  have 5: "error (after (handleSubmit (str ''u13'') (changeName (str ''Mo'') fullGroup))) =
        Some CapacityExceededError"
    by (simp add: ev)
  from handleSubmit_validation_order
    [where s = "changeName (str ''Ada'') initial" and uuid = "str ''u1''" and tier = ?t]
  have 6: "error (after (handleSubmit (str ''u1'') (changeName (str ''Ada'') initial))) = None
    
         \<and> length (members (after (handleSubmit (str ''u1'') (changeName (str ''Ada'') initial)))) = 1"
    by (simp add: ev initial_def toString_catalog TIERS_def)
  from handleSubmit_validation_order
    [where s = "changeAmount (str ''10000.0000000000001'') (changeName (str ''Ada'') initial)"
       and uuid = "str ''u1''" and tier = ?t]
  have 7: "error (after (handleSubmit (str ''u1'')
      (changeAmount (str ''10000.0000000000001'') (changeName (str ''Ada'') initial)))) = None
     \<and> length (members (after (handleSubmit (str ''u1'')
      (changeAmount (str ''10000.0000000000001'') (changeName (str ''Ada'') initial))))) = 1"
    by (simp add: ev initial_def toString_catalog TIERS_def)
  from handleSubmit_validation_order
    [where s = "changeAmount (str ''1e400'') (changeName (str ''Ada'') initial)"
       and uuid = "str ''u1''" and tier = ?t]
  have 8: "error (after (handleSubmit (str ''u1'')
      (changeAmount (str ''1e400'') (changeName (str ''Ada'') initial)))) =
        Some (TierMismatchError (str ''Tier 1'') 10000)"
    by (simp add: ev initial_def toString_catalog TIERS_def)
  from 1 2 3 4 5 6 7 8 show ?thesis by blast
qed

text \<open>
  The amount string \<open>Infinity\<close> parses to positive infinity, which is not NaN: the
  submit ends with the tier-mismatch message, not the invalid-amount one.
\<close>

theorem handleSubmit_Infinity_counterexample:
  "Number (str ''Infinity'') = PosInfinity
   \<and> handleSubmit (str ''u1'')
       \<lparr>members = [], currentWeek = 1,
        formState = \<lparr>form_name = str ''Ada'', form_tierId = str ''tier1'',
                     form_amount = str ''Infinity''\<rparr>,
        error = None\<rparr> =
     Returns
       \<lparr>members = [], currentWeek = 1,
        formState = \<lparr>form_name = str ''Ada'', form_tierId = str ''tier1'',
                     form_amount = str ''Infinity''\<rparr>,
        error = Some (TierMismatchError (str ''Tier 1'') 10000)\<rparr>
   \<and> error (after (handleSubmit (str ''u1'')
       \<lparr>members = [], currentWeek = 1,
        formState = \<lparr>form_name = str ''Ada'', form_tierId = str ''tier1'',
                     form_amount = str ''Infinity''\<rparr>,
        error = None\<rparr>)) \<noteq> Some InvalidAmountError"
  by (simp add: handleSubmit_def Number_examples trim_examples Number_isNaN_def
      getTier_catalog TIERS_def str_eq_iff str_eq_Nil_iff)

text \<open>
  Claim C4. When the trimmed name is not empty, the amount parses to the amount of the
  selected tier and there are fewer than 12 members, \<open>handleSubmit\<close> returns with the
  message cleared and exactly one member, carrying the new id, appended at the end of
  the list, whose length grows by 1; the current week is unchanged. In every other
  case the members, the current week and the form are as before: the handler returns
  with a message set, or, when the selected tier is undefined and the name and number
  checks pass, throws.
\<close>

theorem handleSubmit_atomic:
  "(trim (form_name (formState s)) \<noteq> []
      \<and> (\<exists>tier. getTier (form_tierId (formState s)) = Some tier
          \<and> Number (form_amount (formState s)) = Finite (tier_amount tier))
      \<and> length (members s) < 12 \<longrightarrow>
     (\<exists>s' m. handleSubmit uuid s = Returns s' \<and> error s' = None
        \<and> members s' = members s @ [m] \<and> member_id m = uuid
        \<and> length (members s') = length (members s) + 1
        \<and> currentWeek s' = currentWeek s))
   \<and> (\<not> (trim (form_name (formState s)) \<noteq> []
          \<and> (\<exists>tier. getTier (form_tierId (formState s)) = Some tier
              \<and> Number (form_amount (formState s)) = Finite (tier_amount tier))
          \<and> length (members s) < 12) \<longrightarrow>
       members (after (handleSubmit uuid s)) = members s
       \<and> currentWeek (after (handleSubmit uuid s)) = currentWeek s
       \<and> formState (after (handleSubmit uuid s)) = formState s
       \<and> (if trim (form_name (formState s)) \<noteq> []
           \<and> Number (form_amount (formState s)) \<noteq> NaN
           \<and> getTier (form_tierId (formState s)) = None
           then handleSubmit uuid s = Throws TypeError (s\<lparr>error := None\<rparr>)
           else \<exists>e. handleSubmit uuid s = Returns (s\<lparr>error := Some e\<rparr>)))"
proof (cases "trim (form_name (formState s)) = []")
  case True
  then show ?thesis by (auto simp: handleSubmit_empty_name)
next
  case name: False
  show ?thesis
  proof (cases "Number (form_amount (formState s)) = NaN")
    case True
    with name show ?thesis by (auto simp: handleSubmit_NaN)
  next
    case num: False
    show ?thesis
    proof (cases "getTier (form_tierId (formState s))")
      case None
      with name num show ?thesis by (auto simp: handleSubmit_undefined_tier)
    next
      case (Some t)
      show ?thesis
      proof (cases "Number (form_amount (formState s)) = Finite (tier_amount t)")
        case False
        with name num Some show ?thesis by (auto simp: handleSubmit_mismatch)
      next
        case True
        with name num Some show ?thesis
          by (cases "length (members s) < MAX_MEMBERS")
             (auto simp: handleSubmit_accepted [where tier = t]
                handleSubmit_full [where tier = t] MAX_MEMBERS_def)
      qed
    qed
  qed
qed

theorem handleSubmit_atomic_witness:
  "handleSubmit (str ''u1'') (changeName (str ''Ada'') initial) =
     Returns
       \<lparr>members = [\<lparr>member_id = str ''u1'', member_name = str ''Ada'',
                    member_tierId = str ''tier1'', member_amount = 10000,
                    weeklyInterest = 500, startWeek = 1\<rparr>],
        currentWeek = 1,
        formState = \<lparr>form_name = [], form_tierId = str ''tier1'',
                     form_amount = str ''10000''\<rparr>,
        error = None\<rparr>
   \<and> length (members (after (handleSubmit (str ''u1'') (changeName (str ''Ada'') initial)))) =
       length (members initial) + 1
   \<and> handleSubmit (str ''u1'')
       (changeAmount (str ''10000'')
         (changeName (str ''Ada'') (after (handleTierChange (str ''tier2'') initial)))) =
     Returns
       \<lparr>members = [], currentWeek = 1,
        formState = \<lparr>form_name = str ''Ada'', form_tierId = str ''tier2'',
                     form_amount = str ''10000''\<rparr>,
        error = Some (TierMismatchError (str ''Tier 2'') 20000)\<rparr>
   \<and> members (after (handleSubmit (str ''u13'') (changeName (str ''Mo'') fullGroup))) =
       members fullGroup
   \<and> currentWeek (after (handleSubmit (str ''u13'') (changeName (str ''Mo'') fullGroup))) =
       currentWeek fullGroup"
proof -
  have t: "getTier (str ''tier1'') = Some (TIERS ! 0)" "tier_amount (TIERS ! 0) = 10000"
    by (simp_all add: getTier_catalog TIERS_def)
  have v: "\<exists>tier. getTier (str ''tier1'') = Some tier \<and> Finite 10000 = Finite (tier_amount tier)"
    using t by simp
  from handleSubmit_atomic
    [where uuid = "str ''u13''" and s = "changeName (str ''Mo'') fullGroup"]
  have full: "members (after (handleSubmit (str ''u13'') (changeName (str ''Mo'') fullGroup))) =
        members fullGroup
      \<and> currentWeek (after (handleSubmit (str ''u13'') (changeName (str ''Mo'') fullGroup))) =
        currentWeek fullGroup"
    by (simp add: changeName_def fullGroup_state trim_examples Number_catalog)
  from handleSubmit_atomic [where uuid = "str ''u1''" and s = "changeName (str ''Ada'') initial"] v
  have "\<exists>s' m. handleSubmit (str ''u1'') (changeName (str ''Ada'') initial) = Returns s'
      \<and> length (members s') = length (members (changeName (str ''Ada'') initial)) + 1"
    by (simp add: changeName_def initial_def TIERS_def toString_catalog trim_examples
        Number_catalog str_eq_Nil_iff) blast
  then have grow:
    "length (members (after (handleSubmit (str ''u1'') (changeName (str ''Ada'') initial)))) =
       length (members initial) + 1"
    by (auto simp: changeName_def)
  have "handleSubmit (str ''u1'') (changeName (str ''Ada'') initial) =
     Returns
       \<lparr>members = [\<lparr>member_id = str ''u1'', member_name = str ''Ada'',
                    member_tierId = str ''tier1'', member_amount = 10000,
                    weeklyInterest = 500, startWeek = 1\<rparr>],
        currentWeek = 1,
        formState = \<lparr>form_name = [], form_tierId = str ''tier1'',
                     form_amount = str ''10000''\<rparr>,
        error = None\<rparr>"
    by (simp add: handler_simps)
  moreover have "handleSubmit (str ''u1'')
       (changeAmount (str ''10000'')
         (changeName (str ''Ada'') (after (handleTierChange (str ''tier2'') initial)))) =
     Returns
       \<lparr>members = [], currentWeek = 1,
        formState = \<lparr>form_name = str ''Ada'', form_tierId = str ''tier2'',
                     form_amount = str ''10000''\<rparr>,
        error = Some (TierMismatchError (str ''Tier 2'') 20000)\<rparr>"
    by (simp add: handler_simps)
  ultimately show ?thesis using full grow by blast
qed

section \<open>Invariants of the reachable states\<close>

text \<open>
  Claim C5. Every reachable state has at most 12 members (and at least 0, the size
  being the length of a list). A submit that passes the name and amount checks in a
  state with 12 members sets the capacity message and changes nothing else.
\<close>

theorem ledger_capacity:
  "(reachable s \<longrightarrow> length (members s) \<le> 12)
   \<and> (length (members s) = 12 \<and> trim (form_name (formState s)) \<noteq> []
       \<and> getTier (form_tierId (formState s)) = Some tier
        \<and> Number (form_amount (formState s)) = Finite (tier_amount tier) \<longrightarrow>
      handleSubmit uuid s = Returns (s\<lparr>error := Some CapacityExceededError\<rparr>))"
proof (intro conjI impI)
  assume "reachable s"
  then show "length (members s) \<le> 12"
    using reachable_length by (simp add: MAX_MEMBERS_def)
next
  assume "length (members s) = 12 \<and> trim (form_name (formState s)) \<noteq> []
      \<and> getTier (form_tierId (formState s)) = Some tier
        \<and> Number (form_amount (formState s)) = Finite (tier_amount tier)"
  then show "handleSubmit uuid s = Returns (s\<lparr>error := Some CapacityExceededError\<rparr>)"
    by (intro handleSubmit_full [where tier = tier]) (simp_all add: MAX_MEMBERS_def)
qed

theorem ledger_capacity_witness:
  "reachable fullGroup
   \<and> length (members fullGroup) = 12
   \<and> handleSubmit (str ''u13'') (changeName (str ''Mo'') fullGroup) =
       Returns ((changeName (str ''Mo'') fullGroup)\<lparr>error := Some CapacityExceededError\<rparr>)
  
       \<and> length (members (after (handleSubmit (str ''u13'') (changeName (str ''Mo'') fullGroup)))) = 12
  
       \<and> length (members (run [Withdraw (str ''u5''), ChangeName (str ''Mo''),
                                    Submit (str ''u13'')] fullGroup)) = 12"
proof -
  have t: "getTier (str ''tier1'') = Some (TIERS ! 0)" "tier_amount (TIERS ! 0) = 10000"
    by (simp_all add: getTier_catalog TIERS_def)
  from ledger_capacity [where s = fullGroup] reachable_fullGroup
  have le: "length (members fullGroup) \<le> 12" by blast
  from ledger_capacity
    [where s = "changeName (str ''Mo'') fullGroup" and tier = "TIERS ! 0" and uuid = "str ''u13''"]
  have full: "handleSubmit (str ''u13'') (changeName (str ''Mo'') fullGroup) =
       Returns ((changeName (str ''Mo'') fullGroup)\<lparr>error := Some CapacityExceededError\<rparr>)"
    by (simp add: changeName_def fullGroup_state trim_examples Number_catalog t
        str_eq_Nil_iff)
  have freed:
    "length (members (run [Withdraw (str ''u5''), ChangeName (str ''Mo''),
                           Submit (str ''u13'')] fullGroup)) = 12"
    by (simp add: fullGroup_def handler_simps)
  from le full freed reachable_fullGroup show ?thesis
    by (simp add: fullGroup_state changeName_def)
qed

text \<open>
  Claim C9. In every reachable state each member's start week is at most the current
  week. The current week never decreases and only \<open>advanceWeek\<close> changes it; a
  successful submit appends a member whose start week is the current week.
\<close>

theorem startWeek_le_currentWeek:
  "(reachable s \<longrightarrow> (\<forall>m \<in> set (members s). startWeek m \<le> currentWeek s))
   \<and> currentWeek s \<le> currentWeek (dispatch e s)
   \<and> (currentWeek (dispatch e s) \<noteq> currentWeek s \<longrightarrow> e = AdvanceWeek)
   \<and> (\<forall>s'. handleSubmit uuid s = Returns s' \<and> error s' = None \<longrightarrow>
         members s' \<noteq> [] \<and> butlast (members s') = members s
         \<and> startWeek (last (members s')) = currentWeek s)"
proof (intro conjI impI allI)
  fix s'
  assume "handleSubmit uuid s = Returns s' \<and> error s' = None"
  then show "members s' \<noteq> []" "butlast (members s') = members s"
    "startWeek (last (members s')) = currentWeek s"
    by (cases uuid s rule: handleSubmit_cases; auto)+
qed (simp_all add: reachable_startWeek dispatch_week split: if_splits)

theorem startWeek_le_currentWeek_witness:
  "reachable (run [ChangeName (str ''Ada''), Submit (str ''u1''), AdvanceWeek, AdvanceWeek,
                   ChangeName (str ''Bo''), Submit (str ''u2'')] initial)
  
       \<and> map startWeek (members (run [ChangeName (str ''Ada''),
                                           Submit (str ''u1''), AdvanceWeek, AdvanceWeek,
                   ChangeName (str ''Bo''), Submit (str ''u2'')] initial)) = [1, 3]
   \<and> currentWeek (run [ChangeName (str ''Ada''), Submit (str ''u1''), AdvanceWeek, AdvanceWeek,
                   ChangeName (str ''Bo''), Submit (str ''u2'')] initial) = 3
   \<and> list_all (\<lambda>m. startWeek m \<le> 3)
        (members (run [ChangeName (str ''Ada''), Submit (str ''u1''), AdvanceWeek, AdvanceWeek,
                   ChangeName (str ''Bo''), Submit (str ''u2'')] initial))"
proof -
  let ?s = "run [ChangeName (str ''Ada''), Submit (str ''u1''), AdvanceWeek, AdvanceWeek,
                 ChangeName (str ''Bo''), Submit (str ''u2'')] initial"
  have r: "reachable ?s"
    by (intro reachable_run reachable_initial)
  have w: "currentWeek ?s = 3" and m: "map startWeek (members ?s) = [1, 3]"
    by (simp_all add: handler_simps)
  from startWeek_le_currentWeek [where s = ?s] r
  have "\<forall>m \<in> set (members ?s). startWeek m \<le> currentWeek ?s"
    by blast
  then have "list_all (\<lambda>m. startWeek m \<le> 3) (members ?s)"
    by (simp add: list_all_iff w)
  with r w m show ?thesis by blast
qed

section \<open>Projected payout\<close>

text \<open>
  Claim C1. For every member and week the projected payout is the member's amount plus
  its weekly interest times \<open>max 1 (week - startWeek + 1)\<close>; at the member's own start
  week it is amount plus weekly interest. The member registered in tier 3 after three
  week advances has amount 30000, weekly interest 6000 and start week 4, and its payout
  at week 4 is 36000.
\<close>

theorem computeProjectedTotal_formula:
  "computeProjectedTotal member week =
     member_amount member + weeklyInterest member * max 1 (week - startWeek member + 1)
   \<and> computeProjectedTotal member (startWeek member) =
       member_amount member + weeklyInterest member
   \<and> members (run [AdvanceWeek, AdvanceWeek, AdvanceWeek, ChangeName (str ''Ada''),
                    ChangeTier (str ''tier3''), Submit (str ''u1'')] initial) =
       [\<lparr>member_id = str ''u1'', member_name = str ''Ada'', member_tierId = str ''tier3'',
         member_amount = 30000, weeklyInterest = 6000, startWeek = 4\<rparr>]
   \<and> computeProjectedTotal
         \<lparr>member_id = str ''u1'', member_name = str ''Ada'', member_tierId = str ''tier3'',
          member_amount = 30000, weeklyInterest = 6000, startWeek = 4\<rparr> 4 = 36000"
proof (intro conjI)
  show "members (run [AdvanceWeek, AdvanceWeek, AdvanceWeek, ChangeName (str ''Ada''),
                    ChangeTier (str ''tier3''), Submit (str ''u1'')] initial) =
       [\<lparr>member_id = str ''u1'', member_name = str ''Ada'', member_tierId = str ''tier3'',
         member_amount = 30000, weeklyInterest = 6000, startWeek = 4\<rparr>]"
    by (simp add: run_def initial_def advanceWeek_def changeName_def handleTierChange_def
        getTier_catalog TIERS_def toString_catalog handleSubmit_def Number_catalog
        Number_isNaN_def trim_examples str_eq_iff str_eq_Nil_iff MAX_MEMBERS_def)
qed (simp_all add: computeProjectedTotal_def)

text \<open>
  Claim C10. With a non-negative weekly interest the projected payout does not decrease
  from a week to a later one; with a positive weekly interest it grows strictly from
  each week to the next, from the member's start week on.
\<close>

theorem computeProjectedTotal_mono:
  "(0 \<le> weeklyInterest member \<and> w \<le> w' \<longrightarrow>
      computeProjectedTotal member w \<le> computeProjectedTotal member w')
   \<and> (0 < weeklyInterest member \<and> startWeek member \<le> w \<longrightarrow>
      computeProjectedTotal member w < computeProjectedTotal member (w + 1))"
proof (intro conjI impI)
  assume h: "0 \<le> weeklyInterest member \<and> w \<le> w'"
  then have "max 1 (w - startWeek member + 1) \<le> max 1 (w' - startWeek member + 1)"
    by (simp add: max.coboundedI2)
  with h show "computeProjectedTotal member w \<le> computeProjectedTotal member w'"
    by (simp add: computeProjectedTotal_def mult_left_mono)
next
  assume h: "0 < weeklyInterest member \<and> startWeek member \<le> w"
  then have "max 1 (w - startWeek member + 1) < max 1 (w + 1 - startWeek member + 1)"
    by (simp add: max_def)
  with h show "computeProjectedTotal member w < computeProjectedTotal member (w + 1)"
    by (simp add: computeProjectedTotal_def)
qed

theorem computeProjectedTotal_mono_witness:
  "computeProjectedTotal
     \<lparr>member_id = str ''u1'', member_name = str ''Ada'', member_tierId = str ''tier3'',
      member_amount = 30000, weeklyInterest = 6000, startWeek = 4\<rparr> 4 = 36000
   \<and> computeProjectedTotal
     \<lparr>member_id = str ''u1'', member_name = str ''Ada'', member_tierId = str ''tier3'',
      member_amount = 30000, weeklyInterest = 6000, startWeek = 4\<rparr> 5 = 42000
   \<and> computeProjectedTotal
     \<lparr>member_id = str ''u1'', member_name = str ''Ada'', member_tierId = str ''tier3'',
      member_amount = 30000, weeklyInterest = 6000, startWeek = 4\<rparr> 7 = 54000
   \<and> computeProjectedTotal
     \<lparr>member_id = str ''u1'', member_name = str ''Ada'', member_tierId = str ''tier3'',
      member_amount = 30000, weeklyInterest = 6000, startWeek = 4\<rparr> 4
     \<le> computeProjectedTotal
     \<lparr>member_id = str ''u1'', member_name = str ''Ada'', member_tierId = str ''tier3'',
      member_amount = 30000, weeklyInterest = 6000, startWeek = 4\<rparr> 7
   \<and> computeProjectedTotal
     \<lparr>member_id = str ''u1'', member_name = str ''Ada'', member_tierId = str ''tier3'',
      member_amount = 30000, weeklyInterest = 6000, startWeek = 4\<rparr> 4
     < computeProjectedTotal
     \<lparr>member_id = str ''u1'', member_name = str ''Ada'', member_tierId = str ''tier3'',
      member_amount = 30000, weeklyInterest = 6000, startWeek = 4\<rparr> (4 + 1)"
  using computeProjectedTotal_mono
    [of "\<lparr>member_id = str ''u1'', member_name = str ''Ada'', member_tierId = str ''tier3'',
          member_amount = 30000, weeklyInterest = 6000, startWeek = 4\<rparr>" 4 7]
  by (simp add: computeProjectedTotal_def)

section \<open>Totals\<close>

text \<open>
  Claim C8. The total weekly interest is the same at any two weeks: it is the sum of the
  members' stored weekly interests.
\<close>

theorem totalWeeklyInterest_week_independent:
  "totalWeeklyInterest (totals ms w1) = totalWeeklyInterest (totals ms w2)
   \<and> totalWeeklyInterest (totals ms w1) = sum_list (map weeklyInterest ms)"
  by (simp add: totals_def foldl_add_sum_list)

section \<open>Week advancement\<close>

text \<open>
  Claim C7. \<open>advanceWeek\<close> adds exactly 1 to the current week and has no failing branch;
  \<open>n\<close> calls from week \<open>w\<close> give week \<open>w + n\<close>. The members, and so their start weeks and
  weekly interests, are as before.
\<close>

theorem advanceWeek_counter:
  "currentWeek (advanceWeek s) = currentWeek s + 1
   \<and> members (advanceWeek s) = members s
   \<and> currentWeek ((advanceWeek ^^ n) s) = currentWeek s + of_nat n
   \<and> members ((advanceWeek ^^ n) s) = members s
   \<and> map startWeek (members ((advanceWeek ^^ n) s)) = map startWeek (members s)
   \<and> map weeklyInterest (members ((advanceWeek ^^ n) s)) = map weeklyInterest (members s)"
  by (simp add: funpow_advanceWeek) (simp add: advanceWeek_def)

section \<open>Withdrawal\<close>

text \<open>
  Claim C6. \<open>handleWithdraw\<close> keeps exactly the members whose id differs from the one
  given, in their order: no member left has that id, the result is a subsequence of the
  list before and every member with another id is still in it; with distinct ids, the
  list \<open>xs @ m # ys\<close> becomes \<open>xs @ ys\<close>. The current week is unchanged. When no member
  has the id the state is unchanged, and a second withdrawal of the same id changes
  nothing.
\<close>

theorem handleWithdraw_removes:
  "members (handleWithdraw memberId s) =
     filter (\<lambda>member. member_id member \<noteq> memberId) (members s)
   \<and> memberId \<notin> member_id ` set (members (handleWithdraw memberId s))
   \<and> subseq (members (handleWithdraw memberId s)) (members s)
   \<and> (\<forall>m \<in> set (members s).
         member_id m \<noteq> memberId \<longrightarrow> m \<in> set (members (handleWithdraw memberId s)))
   \<and> (distinct (map member_id (members s)) \<and> members s = xs @ m # ys
       \<and> member_id m = memberId
        \<longrightarrow> members (handleWithdraw memberId s) = xs @ ys)
   \<and> currentWeek (handleWithdraw memberId s) = currentWeek s
  
       \<and> (memberId \<notin> member_id ` set (members s) \<longrightarrow> handleWithdraw memberId s = s)
   \<and> handleWithdraw memberId (handleWithdraw memberId s) = handleWithdraw memberId s"
proof (intro conjI impI)
  show "subseq (members (handleWithdraw memberId s)) (members s)"
    by (simp add: handleWithdraw_def)
next
  assume "distinct (map member_id (members s)) \<and> members s = xs @ m # ys
      \<and> member_id m = memberId"
  then show "members (handleWithdraw memberId s) = xs @ ys"
    using filter_id_split [of xs m ys] by (auto simp: handleWithdraw_def)
next
  assume "memberId \<notin> member_id ` set (members s)"
  then have "filter (\<lambda>member. member_id member \<noteq> memberId) (members s) = members s"
    by (auto simp: filter_id_conv)
  then show "handleWithdraw memberId s = s"
    by (simp add: handleWithdraw_def)
qed (auto simp: handleWithdraw_def)

theorem handleWithdraw_removes_witness:
  "members (handleWithdraw (str ''u2'')
      (run [ChangeName (str ''Ada''), Submit (str ''u1''), ChangeName (str ''Bo''),
            Submit (str ''u2''),
            ChangeTier (str ''tier2''), ChangeName (str ''Cy''), Submit (str ''u3'')] initial)) =
     [\<lparr>member_id = str ''u1'', member_name = str ''Ada'', member_tierId = str ''tier1'',
       member_amount = 10000, weeklyInterest = 500, startWeek = 1\<rparr>,
      \<lparr>member_id = str ''u3'', member_name = str ''Cy'', member_tierId = str ''tier2'',
       member_amount = 20000, weeklyInterest = 2000, startWeek = 1\<rparr>]
   \<and> handleWithdraw (str ''u9'')
      (run [ChangeName (str ''Ada''), Submit (str ''u1''), ChangeName (str ''Bo''),
            Submit (str ''u2''),
            ChangeTier (str ''tier2''), ChangeName (str ''Cy''), Submit (str ''u3'')] initial) =
     run [ChangeName (str ''Ada''), Submit (str ''u1''), ChangeName (str ''Bo''),
          Submit (str ''u2''),
          ChangeTier (str ''tier2''), ChangeName (str ''Cy''), Submit (str ''u3'')] initial"
proof -
  let ?s = "run [ChangeName (str ''Ada''), Submit (str ''u1''),
                 ChangeName (str ''Bo''), Submit (str ''u2''),
                 ChangeTier (str ''tier2''), ChangeName (str ''Cy''), Submit (str ''u3'')] initial"
  let ?a = "\<lparr>member_id = str ''u1'', member_name = str ''Ada'', member_tierId = str ''tier1'',
             member_amount = 10000, weeklyInterest = 500, startWeek = 1\<rparr>"
  let ?b = "\<lparr>member_id = str ''u2'', member_name = str ''Bo'', member_tierId = str ''tier1'',
             member_amount = 10000, weeklyInterest = 500, startWeek = 1\<rparr>"
  let ?c = "\<lparr>member_id = str ''u3'', member_name = str ''Cy'', member_tierId = str ''tier2'',
             member_amount = 20000, weeklyInterest = 2000, startWeek = 1\<rparr>"
  have ms: "members ?s = [?a] @ ?b # [?c]"
    by (simp add: handler_simps)
  then have d: "distinct (map member_id (members ?s))"
    by (simp add: str_eq_iff)
  have absent: "(str ''u9'') \<notin> member_id ` set (members ?s)"
    by (simp add: ms str_eq_iff)
  from handleWithdraw_removes [of "str ''u2''" ?s "[?a]" ?b "[?c]"] ms d
  have "members (handleWithdraw (str ''u2'') ?s) = [?a] @ [?c]"
    by (simp add: str_eq_iff)
  moreover from handleWithdraw_removes [of "str ''u9''" ?s] absent
  have "handleWithdraw (str ''u9'') ?s = ?s"
    by blast
  ultimately show ?thesis by simp
qed

end
